theory Spec2Isabelle
  imports Complex_Main
begin

section \<open>Data model: pandas tables\<close>

text \<open>
  A pandas DataFrame is a rectangular table. The model keeps the ordered column
  labels with their dtype and the rows as lists of cells, one cell per column.
  float64 values are modelled by exact reals (rounding is abstracted), NaN and
  None by \<open>Null\<close>. The dtypes are the three that \<open>pd.read_csv\<close> produces for
  the columns of the flight dataset: object (strings), float64 and int64.
\<close>

datatype dtype = Object | Float64 | Int64

datatype cell = Null | Str string | Flt real | IntV int

record dataframe =
  columns :: "(string \<times> dtype) list"
  rows :: "cell list list"

datatype py_error = KeyError string | TypeError

text \<open>\<open>len(df)\<close>, \<open>df.shape[1]\<close>, \<open>col in df.columns\<close> and \<open>df.empty\<close>.\<close>

definition len_df :: "dataframe \<Rightarrow> nat" where
  "len_df df = length (rows df)"

definition ncols :: "dataframe \<Rightarrow> nat" where
  "ncols df = length (columns df)"

definition col_names :: "dataframe \<Rightarrow> string list" where
  "col_names df = map fst (columns df)"

definition has_col :: "dataframe \<Rightarrow> string \<Rightarrow> bool" where
  "has_col df c = (c \<in> set (col_names df))"

definition df_empty :: "dataframe \<Rightarrow> bool" where
  "df_empty df = (rows df = [] \<or> columns df = [])"

text \<open>Position of a label among the column labels (first occurrence).\<close>

fun col_index :: "string list \<Rightarrow> string \<Rightarrow> nat option" where
  "col_index [] c = None"
| "col_index (x # xs) c =
     (if x = c then Some 0 else map_option Suc (col_index xs c))"

text \<open>\<open>df[c]\<close>: the cells of column \<open>c\<close>, or \<open>KeyError\<close> when the label is absent.\<close>

definition get_col :: "dataframe \<Rightarrow> string \<Rightarrow> py_error + cell list" where
  "get_col df c =
     (case col_index (col_names df) c of
        None \<Rightarrow> Inl (KeyError c)
      | Some i \<Rightarrow> Inr (map (\<lambda>r. r ! i) (rows df)))"

definition col_dtype :: "dataframe \<Rightarrow> string \<Rightarrow> dtype option" where
  "col_dtype df c = map_of (columns df) c"

text \<open>
  The invariant of a table: labels are distinct, every row has one cell per
  column, and a cell has the type of its column (an int64 column holds no
  missing value; pandas stores such a column as float64).
\<close>

fun cell_has_dtype :: "dtype \<Rightarrow> cell \<Rightarrow> bool" where
  "cell_has_dtype Object Null = True"
| "cell_has_dtype Object (Str s) = True"
| "cell_has_dtype Float64 Null = True"
| "cell_has_dtype Float64 (Flt x) = True"
| "cell_has_dtype Int64 (IntV i) = True"
| "cell_has_dtype t c = False"

definition wf_df :: "dataframe \<Rightarrow> bool" where
  "wf_df df =
     (distinct (col_names df) \<and>
      list_all (\<lambda>r. length r = ncols df \<and>
                     list_all2 cell_has_dtype (map snd (columns df)) r) (rows df))"

section \<open>Column arithmetic\<close>

text \<open>
  Element-wise operators of pandas Series. A missing value propagates; an
  operand that is a string makes Python raise \<open>TypeError\<close>, except \<open>+\<close> on two
  strings, which concatenates.
\<close>

fun num_of :: "cell \<Rightarrow> real option" where
  "num_of (Flt x) = Some x"
| "num_of (IntV i) = Some (real_of_int i)"
| "num_of c = None"

fun is_str :: "cell \<Rightarrow> bool" where
  "is_str (Str s) = True"
| "is_str c = False"

fun add_cell :: "cell \<Rightarrow> cell \<Rightarrow> py_error + cell" where
  "add_cell (Str a) (Str b) = Inr (Str (a @ b))"
| "add_cell a b =
     (if is_str a \<or> is_str b then Inl TypeError
      else case num_of a of
             None \<Rightarrow> Inr Null
           | Some x \<Rightarrow> (case num_of b of None \<Rightarrow> Inr Null | Some y \<Rightarrow> Inr (Flt (x + y))))"

definition sub_cell :: "cell \<Rightarrow> cell \<Rightarrow> py_error + cell" where
  "sub_cell a b =
     (if is_str a \<or> is_str b then Inl TypeError
      else case num_of a of
             None \<Rightarrow> Inr Null
           | Some x \<Rightarrow> (case num_of b of None \<Rightarrow> Inr Null | Some y \<Rightarrow> Inr (Flt (x - y))))"

definition abs_cell :: "cell \<Rightarrow> py_error + cell" where
  "abs_cell c =
     (if is_str c then Inl TypeError
      else case num_of c of None \<Rightarrow> Inr Null | Some x \<Rightarrow> Inr (Flt \<bar>x\<bar>))"

text \<open>
  \<open>series > x\<close> and \<open>series < x\<close>. The bound is \<open>None\<close> when it is NaN; a
  comparison in which either side is missing is False.
\<close>

definition gt_cell :: "real option \<Rightarrow> cell \<Rightarrow> py_error + bool" where
  "gt_cell x c =
     (if is_str c then Inl TypeError
      else case (num_of c, x) of (Some v, Some b) \<Rightarrow> Inr (v > b) | _ \<Rightarrow> Inr False)"

definition lt_cell :: "real option \<Rightarrow> cell \<Rightarrow> py_error + bool" where
  "lt_cell x c =
     (if is_str c then Inl TypeError
      else case (num_of c, x) of (Some v, Some b) \<Rightarrow> Inr (v < b) | _ \<Rightarrow> Inr False)"

text \<open>Running an operation over a column stops at the first exception.\<close>

fun traverse :: "('a \<Rightarrow> py_error + 'b) \<Rightarrow> 'a list \<Rightarrow> py_error + 'b list" where
  "traverse f [] = Inr []"
| "traverse f (x # xs) =
     (case f x of
        Inl e \<Rightarrow> Inl e
      | Inr y \<Rightarrow> (case traverse f xs of Inl e \<Rightarrow> Inl e | Inr ys \<Rightarrow> Inr (y # ys)))"

definition bind_err :: "py_error + 'a \<Rightarrow> ('a \<Rightarrow> py_error + 'b) \<Rightarrow> py_error + 'b" where
  "bind_err m f = (case m of Inl e \<Rightarrow> Inl e | Inr x \<Rightarrow> f x)"

text \<open>\<open>mask.sum()\<close>: the number of True entries.\<close>

definition count_true :: "bool list \<Rightarrow> nat" where
  "count_true bs = length (filter (\<lambda>b. b) bs)"

section \<open>The schema of the flight dataset\<close>

text \<open>
  \<open>FlightDataValidator._define_schema\<close> declares seventeen columns, each with a
  Python type, a list of checks and a nullability flag; \<open>strict=False\<close> lets
  other columns through. The checks are kept as data.
\<close>

datatype pytype = PyStr | PyFloat | PyInt

datatype check_fn =
    StrLength nat nat
  | NotNa
  | IsUpper
  | GreaterThan real
  | GreaterThanOrEqualTo real
  | LessThan real
  | IsIn "string list"

text \<open>A check is its predicate and the \<open>error=\<close> message, when one is given.\<close>

datatype check = Check check_fn "string option"

record column_schema =
  col_type :: pytype
  checks :: "check list"
  nullable :: bool

definition Column :: "pytype \<Rightarrow> check list \<Rightarrow> bool \<Rightarrow> column_schema" where
  "Column t cs n = \<lparr>col_type = t, checks = cs, nullable = n\<rparr>"

definition define_schema :: "(string \<times> column_schema) list" where
  "define_schema =
     [(''Airline'',
         Column PyStr [Check (StrLength 3 100) None,
                       Check NotNa (Some ''Airline cannot be null'')] False),
      (''Source'',
         Column PyStr [Check (StrLength 2 5) None,
                       Check IsUpper (Some ''Source should be uppercase'')] False),
      (''Source Name'', Column PyStr [] False),
      (''Destination'',
         Column PyStr [Check (StrLength 2 5) None,
                       Check IsUpper (Some ''Destination should be uppercase'')] False),
      (''Destination Name'', Column PyStr [] False),
      (''Departure Date & Time'', Column PyStr [] False),
      (''Arrival Date & Time'', Column PyStr [] False),
      (''Duration (hrs)'',
         Column PyFloat [Check (GreaterThan 0) None,
                         Check (LessThan 50) (Some ''Duration too long'')] False),
      (''Stopovers'', Column PyStr [] False),
      (''Aircraft Type'', Column PyStr [] True),
      (''Class'',
         Column PyStr [Check (IsIn [''Economy'', ''Business'', ''First'']) None] False),
      (''Booking Source'', Column PyStr [] False),
      (''Base Fare (BDT)'',
         Column PyFloat [Check (GreaterThan 0) (Some ''Base fare must be positive''),
                         Check (LessThan 1000000) None] False),
      (''Tax & Surcharge (BDT)'',
         Column PyFloat [Check (GreaterThanOrEqualTo 0) None,
                         Check (LessThan 500000) None] False),
      (''Total Fare (BDT)'',
         Column PyFloat [Check (GreaterThan 0) (Some ''Total fare must be positive''),
                         Check (LessThan 1500000) None] False),
      (''Seasonality'', Column PyStr [] False),
      (''Days Before Departure'',
         Column PyInt [Check (GreaterThanOrEqualTo 0) None,
                       Check (LessThan 365) None] False)]"

section \<open>The schema checker\<close>

text \<open>
  Modelled from the spec: the validator behind \<open>self.schema.validate(df, lazy=True)\<close>
  is the third-party pandera library, which is not among the sources. The model
  follows the specification of the Schema Checker: a declared column that is
  absent yields one schema-level record; a column whose dtype differs from the
  declared type yields one type record and no further checks; otherwise each
  row is tested for nullability first and then against each check in
  declaration order, and every violation is collected.
\<close>

record failure =
  f_column :: string
  f_index :: "nat option"
  f_check :: string

fun dtype_matches :: "pytype \<Rightarrow> dtype \<Rightarrow> bool" where
  "dtype_matches PyStr Object = True"
| "dtype_matches PyFloat Float64 = True"
| "dtype_matches PyInt Int64 = True"
| "dtype_matches t d = False"

text \<open>\<open>str.isupper\<close> on ASCII: some cased character, and no lower-case one.\<close>

definition is_upper_char :: "char \<Rightarrow> bool" where
  "is_upper_char c = ((65::nat) \<le> of_char c \<and> of_char c \<le> (90::nat))"

definition is_lower_char :: "char \<Rightarrow> bool" where
  "is_lower_char c = ((97::nat) \<le> of_char c \<and> of_char c \<le> (122::nat))"

definition isupper :: "string \<Rightarrow> bool" where
  "isupper s = (list_ex is_upper_char s \<and> \<not> list_ex is_lower_char s)"

fun fn_passes :: "check_fn \<Rightarrow> cell \<Rightarrow> bool" where
  "fn_passes (StrLength lo hi) c =
     (case c of Str s \<Rightarrow> lo \<le> length s \<and> length s \<le> hi | _ \<Rightarrow> False)"
| "fn_passes NotNa c = (c \<noteq> Null)"
| "fn_passes IsUpper c = (case c of Str s \<Rightarrow> isupper s | _ \<Rightarrow> False)"
| "fn_passes (GreaterThan x) c = (case num_of c of Some v \<Rightarrow> v > x | None \<Rightarrow> False)"
| "fn_passes (GreaterThanOrEqualTo x) c =
     (case num_of c of Some v \<Rightarrow> v \<ge> x | None \<Rightarrow> False)"
| "fn_passes (LessThan x) c = (case num_of c of Some v \<Rightarrow> v < x | None \<Rightarrow> False)"
| "fn_passes (IsIn xs) c = (case c of Str s \<Rightarrow> s \<in> set xs | _ \<Rightarrow> False)"

fun fn_name :: "check_fn \<Rightarrow> string" where
  "fn_name (StrLength lo hi) = ''str_length''"
| "fn_name NotNa = ''<lambda>''"
| "fn_name IsUpper = ''<lambda>''"
| "fn_name (GreaterThan x) = ''greater_than''"
| "fn_name (GreaterThanOrEqualTo x) = ''greater_than_or_equal_to''"
| "fn_name (LessThan x) = ''less_than''"
| "fn_name (IsIn xs) = ''isin''"

fun check_passes :: "check \<Rightarrow> cell \<Rightarrow> bool" where
  "check_passes (Check f e) c = fn_passes f c"

fun check_name :: "check \<Rightarrow> string" where
  "check_name (Check f e) = (case e of Some m \<Rightarrow> m | None \<Rightarrow> fn_name f)"

definition cell_failures :: "string \<Rightarrow> column_schema \<Rightarrow> nat \<times> cell \<Rightarrow> failure list" where
  "cell_failures name cs ic =
     (case ic of (i, c) \<Rightarrow>
        if c = Null then
          (if nullable cs then []
           else [\<lparr>f_column = name, f_index = Some i, f_check = ''not_nullable''\<rparr>])
        else
          map (\<lambda>k. \<lparr>f_column = name, f_index = Some i, f_check = check_name k\<rparr>)
              (filter (\<lambda>k. \<not> check_passes k c) (checks cs)))"

definition column_failures :: "dataframe \<Rightarrow> string \<times> column_schema \<Rightarrow> failure list" where
  "column_failures df ncs =
     (case ncs of (name, cs) \<Rightarrow>
        (case (get_col df name, col_dtype df name) of
           (Inr cells, Some d) \<Rightarrow>
             if \<not> dtype_matches (col_type cs) d then
               [\<lparr>f_column = name, f_index = None, f_check = ''dtype''\<rparr>]
             else concat (map (cell_failures name cs) (enumerate 0 cells))
         | _ \<Rightarrow> [\<lparr>f_column = name, f_index = None, f_check = ''column_in_dataframe''\<rparr>]))"

definition failure_cases :: "dataframe \<Rightarrow> failure list" where
  "failure_cases df = concat (map (column_failures df) define_schema)"

text \<open>
  \<open>schema.validate\<close> returns the table when nothing was collected and raises
  \<open>SchemaErrors\<close>, carrying the failure cases, otherwise.
\<close>

definition schema_validate :: "dataframe \<Rightarrow> failure list + dataframe" where
  "schema_validate df =
     (let fs = failure_cases df in if fs = [] then Inr df else Inl fs)"

text \<open>The table has every declared column, with the dtype of its declared type.\<close>

definition declared_header :: "dataframe \<Rightarrow> bool" where
  "declared_header df =
     list_all (\<lambda>(name, cs). case col_dtype df name of
                                 None \<Rightarrow> False
                               | Some d \<Rightarrow> dtype_matches (col_type cs) d) define_schema"

section \<open>Aggregates of a column\<close>

text \<open>
  pandas skips missing values in \<open>median\<close>, \<open>mean\<close>, \<open>min\<close>, \<open>max\<close> and \<open>std\<close>,
  returns NaN (\<open>None\<close>) when nothing is left, and raises on a string.
\<close>

definition numeric_values :: "cell list \<Rightarrow> py_error + real list" where
  "numeric_values cells =
     bind_err (traverse (\<lambda>c. if is_str c then Inl TypeError else Inr (num_of c)) cells)
       (\<lambda>vs. Inr (concat (map (\<lambda>v. case v of None \<Rightarrow> [] | Some x \<Rightarrow> [x]) vs)))"

definition median_of :: "real list \<Rightarrow> real option" where
  "median_of xs =
     (let s = sort xs; n = length s in
      if n = 0 then None
      else if odd n then Some (s ! (n div 2))
      else Some ((s ! (n div 2 - 1) + s ! (n div 2)) / 2))"

definition mean_of :: "real list \<Rightarrow> real option" where
  "mean_of xs = (if xs = [] then None else Some (sum_list xs / real (length xs)))"

definition min_of :: "real list \<Rightarrow> real option" where
  "min_of xs = (case xs of [] \<Rightarrow> None | x # ys \<Rightarrow> Some (fold min ys x))"

definition max_of :: "real list \<Rightarrow> real option" where
  "max_of xs = (case xs of [] \<Rightarrow> None | x # ys \<Rightarrow> Some (fold max ys x))"

text \<open>The sample standard deviation (divisor \<open>n - 1\<close>), NaN below two values.\<close>

definition std_of :: "real list \<Rightarrow> real option" where
  "std_of xs =
     (if length xs < 2 then None
      else let m = sum_list xs / real (length xs) in
           Some (sqrt (sum_list (map (\<lambda>x. (x - m)\<^sup>2) xs) / real (length xs - 1))))"

definition series_median :: "cell list \<Rightarrow> py_error + real option" where
  "series_median cells = bind_err (numeric_values cells) (\<lambda>xs. Inr (median_of xs))"

section \<open>Duplicated rows\<close>

text \<open>
  \<open>df.duplicated()\<close> marks a row that equals an earlier row (missing values
  compare equal); on a table with no rows or no columns it returns an empty
  mask. With \<open>subset\<close> the rows are compared on those columns only.
\<close>

fun duplicated_from :: "'a list \<Rightarrow> 'a list \<Rightarrow> bool list" where
  "duplicated_from seen [] = []"
| "duplicated_from seen (x # xs) = (x \<in> set seen) # duplicated_from (x # seen) xs"

definition duplicated :: "dataframe \<Rightarrow> bool list" where
  "duplicated df = (if df_empty df then [] else duplicated_from [] (rows df))"

fun subset_indices :: "string list \<Rightarrow> string list \<Rightarrow> py_error + nat list" where
  "subset_indices names [] = Inr []"
| "subset_indices names (c # cs) =
     (case col_index names c of
        None \<Rightarrow> Inl (KeyError c)
      | Some i \<Rightarrow> bind_err (subset_indices names cs) (\<lambda>js. Inr (i # js)))"

definition duplicated_subset :: "dataframe \<Rightarrow> string list \<Rightarrow> py_error + bool list" where
  "duplicated_subset df key =
     (if df_empty df then Inr []
      else bind_err (subset_indices (col_names df) key)
             (\<lambda>js. Inr (duplicated_from [] (map (\<lambda>r. map (\<lambda>j. r ! j) js) (rows df)))))"

section \<open>The business rule checker\<close>

record warning =
  rule :: string
  message :: string
  severity :: string

text \<open>The decimal rendering of a count inside an f-string.\<close>

definition digit_char :: "nat \<Rightarrow> char" where
  "digit_char d = ''0123456789'' ! d"

fun show_nat :: "nat \<Rightarrow> string" where
  "show_nat n = (if n < 10 then [digit_char n] else show_nat (n div 10) @ [digit_char (n mod 10)])"

declare show_nat.simps [simp del]

definition fare_cols :: "string list" where
  "fare_cols = [''Base Fare (BDT)'', ''Tax & Surcharge (BDT)'', ''Total Fare (BDT)'']"

definition duplicate_cols :: "string list" where
  "duplicate_cols = [''Airline'', ''Source'', ''Destination'', ''Departure Date & Time'']"

text \<open>
  \<open>calculated_total = df[Base] + df[Tax]\<close>, \<open>diff = abs(calculated_total - df[Total])\<close>,
  \<open>mismatches = (diff > 1.0).sum()\<close>.
\<close>

definition fare_mismatches :: "dataframe \<Rightarrow> py_error + nat" where
  "fare_mismatches df =
     bind_err (get_col df ''Base Fare (BDT)'') (\<lambda>base.
     bind_err (get_col df ''Tax & Surcharge (BDT)'') (\<lambda>tax.
     bind_err (traverse (\<lambda>(a, b). add_cell a b) (zip base tax)) (\<lambda>calculated_total.
     bind_err (get_col df ''Total Fare (BDT)'') (\<lambda>total.
     bind_err (traverse (\<lambda>(a, b). sub_cell a b) (zip calculated_total total)) (\<lambda>d.
     bind_err (traverse abs_cell d) (\<lambda>diff.
     bind_err (traverse (gt_cell (Some 1)) diff) (\<lambda>mask.
     Inr (count_true mask))))))))"

definition fare_warning :: "nat \<Rightarrow> warning" where
  "fare_warning mismatches =
     \<lparr>rule = ''Total Fare Calculation'',
      message = show_nat mismatches @ '' rows have Total Fare != Base Fare + Tax'',
      severity = ''warning''\<rparr>"

definition fare_rule :: "dataframe \<Rightarrow> warning list \<Rightarrow> py_error + warning list" where
  "fare_rule df warnings =
     (if list_all (has_col df) fare_cols then
        bind_err (fare_mismatches df) (\<lambda>mismatches.
          Inr (if mismatches > 0 then warnings @ [fare_warning mismatches] else warnings))
      else Inr warnings)"

definition duplicate_warning :: "nat \<Rightarrow> warning" where
  "duplicate_warning duplicates =
     \<lparr>rule = ''Duplicate Flights'',
      message = show_nat duplicates @ '' potential duplicate flight records found'',
      severity = ''info''\<rparr>"

definition duplicate_rule :: "dataframe \<Rightarrow> warning list \<Rightarrow> py_error + warning list" where
  "duplicate_rule df warnings =
     (if list_all (has_col df) duplicate_cols then
        bind_err (duplicated_subset df duplicate_cols) (\<lambda>mask.
          let duplicates = count_true mask in
          Inr (if duplicates > 0 then warnings @ [duplicate_warning duplicates] else warnings))
      else Inr warnings)"

text \<open>
  \<open>median_fare = df[Total].median()\<close>,
  \<open>outliers = ((df[Total] > median_fare * 10) | (df[Total] < median_fare * 0.1)).sum()\<close>.
\<close>

definition fare_outliers :: "dataframe \<Rightarrow> py_error + nat" where
  "fare_outliers df =
     bind_err (get_col df ''Total Fare (BDT)'') (\<lambda>fare.
     bind_err (series_median fare) (\<lambda>median_fare.
     bind_err (traverse (gt_cell (map_option (\<lambda>m. m * 10) median_fare)) fare) (\<lambda>above.
     bind_err (traverse (lt_cell (map_option (\<lambda>m. m * (1 / 10)) median_fare)) fare) (\<lambda>below.
     Inr (count_true (map (\<lambda>(a, b). a \<or> b) (zip above below)))))))"

definition outlier_warning :: "nat \<Rightarrow> warning" where
  "outlier_warning outliers =
     \<lparr>rule = ''Fare Outliers'',
      message = show_nat outliers @ '' rows with extreme fares (10x or 0.1x median)'',
      severity = ''info''\<rparr>"

definition outlier_rule :: "dataframe \<Rightarrow> warning list \<Rightarrow> py_error + warning list" where
  "outlier_rule df warnings =
     (if has_col df ''Total Fare (BDT)'' then
        bind_err (fare_outliers df) (\<lambda>outliers.
          Inr (if outliers > 0 then warnings @ [outlier_warning outliers] else warnings))
      else Inr warnings)"

text \<open>
  \<open>_check_business_rules\<close>: the three blocks run in order on the list of
  warnings collected so far, which starts empty.
\<close>

definition check_business_rules :: "dataframe \<Rightarrow> py_error + warning list" where
  "check_business_rules df =
     bind_err (fare_rule df []) (\<lambda>w1.
     bind_err (duplicate_rule df w1) (\<lambda>w2.
     outlier_rule df w2))"

section \<open>The statistics summarizer\<close>

record fare_stats =
  fs_mean :: "real option"
  fs_median :: "real option"
  fs_min :: "real option"
  fs_max :: "real option"
  fs_std :: "real option"

text \<open>The key \<open>fare_stats\<close> of the dictionary is present exactly when the field is \<open>Some\<close>.\<close>

record stats =
  total_rows :: nat
  total_columns :: nat
  missing_values :: "(string \<times> nat) list"
  duplicate_rows :: nat
  fare_stats :: "fare_stats option"

text \<open>\<open>df.isnull().sum()\<close>: the number of missing cells of each column.\<close>

definition isnull_sum :: "dataframe \<Rightarrow> (string \<times> nat) list" where
  "isnull_sum df =
     map (\<lambda>(i, c). (fst c, length (filter (\<lambda>r. r ! i = Null) (rows df))))
         (enumerate 0 (columns df))"

definition calculate_stats :: "dataframe \<Rightarrow> py_error + stats" where
  "calculate_stats df =
     (let st = \<lparr>total_rows = len_df df,
                total_columns = ncols df,
                missing_values = isnull_sum df,
                duplicate_rows = count_true (duplicated df),
                fare_stats = None\<rparr>
      in if has_col df ''Total Fare (BDT)'' then
           bind_err (get_col df ''Total Fare (BDT)'') (\<lambda>fare.
           bind_err (numeric_values fare) (\<lambda>xs.
           Inr (st\<lparr>fare_stats :=
                  Some \<lparr>fs_mean = mean_of xs, fs_median = median_of xs,
                        fs_min = min_of xs, fs_max = max_of xs, fs_std = std_of xs\<rparr>\<rparr>)))
         else Inr st)"

section \<open>The validator\<close>

text \<open>The result dictionary; \<open>stats = None\<close> is the empty dictionary it starts with.\<close>

record validation_result =
  is_valid :: bool
  errors :: "failure list"
  warnings :: "warning list"
  stats :: "stats option"

definition validate :: "dataframe \<Rightarrow> py_error + validation_result" where
  "validate df =
     (let results = \<lparr>is_valid = False, errors = [], warnings = [], stats = None\<rparr>;
          results = (case schema_validate df of
                       Inr validated_df \<Rightarrow> results\<lparr>is_valid := True\<rparr>
                     | Inl e \<Rightarrow> results\<lparr>errors := e\<rparr>)
      in bind_err (check_business_rules df) (\<lambda>business_warnings.
         let results = results\<lparr>warnings := warnings results @ business_warnings\<rparr> in
         bind_err (calculate_stats df) (\<lambda>st.
         Inr (results\<lparr>stats := Some st\<rparr>))))"

section \<open>The quality scorer\<close>

text \<open>
  \<open>generate_quality_summary\<close>. The counts are numpy integers, so the division
  by \<open>len(df) * df.shape[1]\<close> does not raise when that product is zero: numpy
  warns and yields nan or inf, which is \<open>None\<close> here. The report printed before
  the result reads column \<open>Total Fare (BDT)\<close> and formats its aggregates as
  numbers.
\<close>

record quality_summary =
  q_total_rows :: nat
  q_total_columns :: nat
  q_missing_values :: nat
  duplicates :: nat
  quality_score :: "real option"

definition np_divide :: "nat \<Rightarrow> nat \<Rightarrow> real option" where
  "np_divide a b = (if b = 0 then None else Some (real a / real b))"

definition generate_quality_summary :: "dataframe \<Rightarrow> py_error + quality_summary" where
  "generate_quality_summary df =
     (let missing_total = sum_list (map snd (isnull_sum df));
          duplicate_total = count_true (duplicated df)
      in bind_err (get_col df ''Total Fare (BDT)'') (\<lambda>fare.
         bind_err (numeric_values fare) (\<lambda>xs.
         Inr \<lparr>q_total_rows = len_df df,
              q_total_columns = ncols df,
              q_missing_values = missing_total,
              duplicates = duplicate_total,
              quality_score =
                map_option (\<lambda>q. 100 * (1 - q))
                  (np_divide (missing_total + duplicate_total) (len_df df * ncols df))\<rparr>)))"

section \<open>Fare verification on a copy\<close>












section \<open>The quality score as the specification words it\<close>




section \<open>Row and column predicates\<close>




text \<open>A column that, when present, holds no string.\<close>

definition numeric_column :: "dataframe \<Rightarrow> string \<Rightarrow> bool" where
  "numeric_column df c =
     (case get_col df c of Inl e \<Rightarrow> True | Inr cells \<Rightarrow> \<not> list_ex is_str cells)"


section \<open>Example tables\<close>

definition fare_example :: dataframe where
  "fare_example =
     \<lparr>columns = [(''Base Fare (BDT)'', Float64), (''Tax & Surcharge (BDT)'', Float64),
                 (''Total Fare (BDT)'', Float64)],
      rows = [[Flt 100, Flt 20, Flt 120], [Flt 100, Flt 20, Flt 200]]\<rparr>"

definition duplicate_example :: dataframe where
  "duplicate_example =
     \<lparr>columns = [(''Airline'', Object), (''Source'', Object), (''Destination'', Object),
                 (''Departure Date & Time'', Object), (''Class'', Object)],
      rows = [[Str ''Biman'', Str ''DAC'', Str ''CGP'', Str ''2025-01-01 10:00:00'',
               Str ''Economy''],
              [Str ''Biman'', Str ''DAC'', Str ''CGP'', Str ''2025-01-01 10:00:00'',
               Str ''Business'']]\<rparr>"

definition no_columns_example :: dataframe where
  "no_columns_example = \<lparr>columns = [], rows = []\<rparr>"

text \<open>The header of the dataset: every declared column, with the dtype of its type.\<close>

fun dtype_of_pytype :: "pytype \<Rightarrow> dtype" where
  "dtype_of_pytype PyStr = Object"
| "dtype_of_pytype PyFloat = Float64"
| "dtype_of_pytype PyInt = Int64"

definition declared_columns :: "(string \<times> dtype) list" where
  "declared_columns =
     map (\<lambda>(name, cs). (name, dtype_of_pytype (col_type cs))) define_schema"

definition zero_rows_example :: dataframe where
  "zero_rows_example = \<lparr>columns = declared_columns, rows = []\<rparr>"

definition ten_rows_example :: dataframe where
  "ten_rows_example =
     \<lparr>columns = [(''Total Fare (BDT)'', Float64)],
      rows = [[Flt 1], [Flt 2], [Flt 3], [Flt 4], [Flt 5],
              [Flt 6], [Flt 7], [Flt 8], [Flt 9], [Null]]\<rparr>"

definition all_missing_example :: dataframe where
  "all_missing_example =
     \<lparr>columns = [(''Total Fare (BDT)'', Float64)], rows = [[Null], [Null], [Null]]\<rparr>"

definition zero_rows_fare_example :: dataframe where
  "zero_rows_fare_example = \<lparr>columns = [(''Total Fare (BDT)'', Float64)], rows = []\<rparr>"

definition string_fare_example :: dataframe where
  "string_fare_example =
     \<lparr>columns = [(''Total Fare (BDT)'', Object)], rows = [[Str ''n/a'']]\<rparr>"

section \<open>Column lookup\<close>

lemma col_index_None: "col_index names c = None \<longleftrightarrow> c \<notin> set names"
  by (induction names) auto

lemma col_index_map_of: "col_index (map fst cols) c = None \<longleftrightarrow> map_of cols c = None"
  by (simp add: col_index_None map_of_eq_None_iff)

lemma get_col_zero_rows:
  "rows df = [] \<Longrightarrow> get_col df c = (if has_col df c then Inr [] else Inl (KeyError c))"
  using col_index_None [of "col_names df" c]
  by (auto simp: get_col_def has_col_def split: option.splits)

section \<open>Evaluating the examples\<close>

lemmas rule_defs =
  check_business_rules_def fare_rule_def duplicate_rule_def outlier_rule_def
  fare_mismatches_def fare_outliers_def duplicated_subset_def
  fare_cols_def duplicate_cols_def has_col_def col_names_def get_col_def df_empty_def
  bind_err_def sub_cell_def abs_cell_def gt_cell_def lt_cell_def count_true_def
  series_median_def numeric_values_def median_of_def

text \<open>The example tables satisfy the invariant of a table.\<close>

lemma examples_well_formed:
  "wf_df fare_example" "wf_df duplicate_example" "wf_df no_columns_example"
  "wf_df zero_rows_example" "wf_df ten_rows_example" "wf_df all_missing_example"
  "wf_df zero_rows_fare_example" "wf_df string_fare_example"
  by (simp_all add: wf_df_def col_names_def ncols_def fare_example_def duplicate_example_def
        no_columns_example_def zero_rows_example_def declared_columns_def define_schema_def
        Column_def ten_rows_example_def all_missing_example_def zero_rows_fare_example_def
        string_fare_example_def)

lemma fare_example_rules: "check_business_rules fare_example = Inr [fare_warning 1]"
  by (simp add: rule_defs fare_example_def)

lemma fare_example_stats: "\<exists>st. calculate_stats fare_example = Inr st"
  by (simp add: calculate_stats_def rule_defs fare_example_def Let_def)

lemma fare_example_validate: "\<exists>r. validate fare_example = Inr r"
  using fare_example_stats
  by (auto simp add: validate_def fare_example_rules bind_err_def Let_def)

section \<open>The validation result\<close>

text \<open>
  C1. Whenever \<open>validate\<close> returns a result, \<open>is_valid\<close> is true exactly when the
  \<open>errors\<close> sequence is empty. The flag is fixed by the schema check alone: it
  is true exactly when the schema checker collected no failure, and \<open>errors\<close>
  is what the checker collected, so the warnings play no part in it.
\<close>

theorem validate_is_valid_iff_no_errors:
  "validate df = Inr r \<Longrightarrow>
     is_valid r = (errors r = []) \<and>
     is_valid r = (failure_cases df = []) \<and>
     errors r = failure_cases df"
  by (auto simp: validate_def schema_validate_def bind_err_def Let_def
           split: sum.splits if_splits)

theorem validate_is_valid_iff_no_errors_witness:
  "\<exists>r. validate fare_example = Inr r \<and>
       is_valid r = (errors r = []) \<and>
       is_valid r = (failure_cases fare_example = []) \<and>
       errors r = failure_cases fare_example"
proof -
  obtain r where r: "validate fare_example = Inr r"
    using fare_example_validate by blast
  from validate_is_valid_iff_no_errors [OF r] r show ?thesis by blast
qed

section \<open>Tables without rows\<close>

lemma column_failures_zero_rows:
  "rows df = [] \<Longrightarrow>
     (column_failures df (name, cs) = []) =
     (case col_dtype df name of None \<Rightarrow> False | Some d \<Rightarrow> dtype_matches (col_type cs) d)"
  using col_index_map_of [of "columns df" name]
  by (auto simp: column_failures_def get_col_def col_dtype_def col_names_def
           split: option.splits sum.splits)

lemma failure_cases_zero_rows:
  "rows df = [] \<Longrightarrow> (failure_cases df = []) = declared_header df"
  by (auto simp: failure_cases_def declared_header_def list_all_iff column_failures_zero_rows)

lemma business_rules_zero_rows: "rows df = [] \<Longrightarrow> check_business_rules df = Inr []"
  by (simp add: check_business_rules_def fare_rule_def duplicate_rule_def outlier_rule_def
        fare_mismatches_def fare_outliers_def duplicated_subset_def df_empty_def
        fare_cols_def get_col_zero_rows bind_err_def count_true_def series_median_def
        numeric_values_def median_of_def)

lemma stats_zero_rows:
  "rows df = [] \<Longrightarrow> \<exists>st. calculate_stats df = Inr st \<and> total_rows st = 0"
  by (simp add: calculate_stats_def get_col_zero_rows bind_err_def numeric_values_def
        Let_def len_df_def)

lemma declared_header_zero_rows_example: "declared_header zero_rows_example"
  by (simp add: declared_header_def zero_rows_example_def declared_columns_def
        define_schema_def col_dtype_def Column_def)

text \<open>
  C2, as stated, fails: the table with no rows and no columns lacks every
  declared column, so the schema check collects seventeen failures and the
  result is not valid.
\<close>

theorem validate_zero_rows_counterexample:
  "rows no_columns_example = [] \<and>
   validate no_columns_example =
     Inr \<lparr>is_valid = False, errors = failure_cases no_columns_example, warnings = [],
          stats = Some \<lparr>total_rows = 0, total_columns = 0, missing_values = [],
                        duplicate_rows = 0, fare_stats = None\<rparr>\<rparr> \<and>
   length (failure_cases no_columns_example) = 17"
  by (simp add: no_columns_example_def validate_def schema_validate_def failure_cases_def
        define_schema_def column_failures_def get_col_def col_names_def col_dtype_def
        check_business_rules_def fare_rule_def duplicate_rule_def outlier_rule_def
        fare_cols_def duplicate_cols_def has_col_def bind_err_def calculate_stats_def
        len_df_def ncols_def isnull_sum_def duplicated_def df_empty_def count_true_def Let_def)

text \<open>
  C2, amended. On every table with zero rows \<open>validate\<close> returns a result whose
  statistics report \<open>total_rows = 0\<close>; the result is valid, with an empty
  \<open>errors\<close> sequence, exactly when the table has every declared column with
  the dtype of its declared type.
\<close>

theorem validate_zero_rows:
  "rows df = [] \<Longrightarrow>
     \<exists>r st. validate df = Inr r \<and> stats r = Some st \<and> total_rows st = 0 \<and>
            is_valid r = declared_header df \<and> (errors r = []) = declared_header df"
proof -
  assume z: "rows df = []"
  obtain st where st: "calculate_stats df = Inr st" "total_rows st = 0"
    using stats_zero_rows [OF z] by blast
  show ?thesis
    using st failure_cases_zero_rows [OF z]
    by (auto simp: validate_def schema_validate_def business_rules_zero_rows [OF z]
                   bind_err_def Let_def)
qed

theorem validate_zero_rows_witness:
  "rows zero_rows_example = [] \<and>
   (\<exists>r st. validate zero_rows_example = Inr r \<and> stats r = Some st \<and> total_rows st = 0 \<and>
           is_valid r \<and> errors r = [])"
proof -
  have z: "rows zero_rows_example = []" by (simp add: zero_rows_example_def)
  from validate_zero_rows [OF z] declared_header_zero_rows_example z show ?thesis by auto
qed

section \<open>The fare-consistency rule\<close>
















section \<open>The quality score\<close>

lemmas quality_defs =
  generate_quality_summary_def isnull_sum_def duplicated_def df_empty_def count_true_def
  get_col_def col_names_def numeric_values_def bind_err_def np_divide_def len_df_def ncols_def
  Let_def







lemma isnull_sum_zero_rows: "rows df = [] \<Longrightarrow> sum_list (map snd (isnull_sum df)) = 0"
  by (auto simp: isnull_sum_def)

text \<open>
  C4, as stated, fails: on a table with the fare column and no rows the scorer
  returns, but its score is the undefined result of dividing zero by zero, not
  100.
\<close>

theorem quality_zero_rows_counterexample:
  "rows zero_rows_fare_example = [] \<and>
   generate_quality_summary zero_rows_fare_example =
     Inr \<lparr>q_total_rows = 0, q_total_columns = 1, q_missing_values = 0, duplicates = 0,
          quality_score = None\<rparr>"
  by (simp add: zero_rows_fare_example_def quality_defs)

text \<open>
  C4, amended. On a table with zero rows that has the fare column the scorer
  returns without raising, with zero counts and a score that is not a number;
  without the fare column it raises \<open>KeyError\<close>.
\<close>

theorem quality_zero_rows:
  "rows df = [] \<Longrightarrow>
     generate_quality_summary df =
       (if has_col df ''Total Fare (BDT)'' then
          Inr \<lparr>q_total_rows = 0, q_total_columns = ncols df, q_missing_values = 0,
               duplicates = 0, quality_score = None\<rparr>
        else Inl (KeyError ''Total Fare (BDT)''))"
  by (simp add: generate_quality_summary_def get_col_zero_rows isnull_sum_zero_rows
        duplicated_def df_empty_def count_true_def numeric_values_def bind_err_def
        np_divide_def len_df_def Let_def)

theorem quality_zero_rows_witness:
  "rows zero_rows_example = [] \<and>
   generate_quality_summary zero_rows_example =
     Inr \<lparr>q_total_rows = 0, q_total_columns = 17, q_missing_values = 0,
          duplicates = 0, quality_score = None\<rparr>"
proof -
  have z: "rows zero_rows_example = []" by (simp add: zero_rows_example_def)
  from quality_zero_rows [OF z] z show ?thesis
    by (simp add: zero_rows_example_def declared_columns_def define_schema_def
          has_col_def col_names_def ncols_def)
qed









section \<open>Duplicate flights and duplicate rows\<close>














section \<open>The business rule checker returns\<close>

lemma traverse_total:
  "(\<And>x. x \<in> set xs \<Longrightarrow> \<exists>y. f x = Inr y \<and> P y) \<Longrightarrow>
     \<exists>ys. traverse f xs = Inr ys \<and> (\<forall>y \<in> set ys. P y)"
proof (induction xs)
  case Nil
  then show ?case by simp
next
  case (Cons x xs)
  obtain y where y: "f x = Inr y" "P y" using Cons.prems [of x] by auto
  obtain ys where ys: "traverse f xs = Inr ys" "\<forall>y \<in> set ys. P y"
    using Cons.IH Cons.prems by auto
  from y ys show ?case by simp
qed






lemma numeric_columnD:
  "numeric_column df c \<Longrightarrow> get_col df c = Inr cells \<Longrightarrow> \<forall>x \<in> set cells. \<not> is_str x"
  by (simp add: numeric_column_def list_ex_iff)

lemma has_col_get_col: "has_col df c \<Longrightarrow> \<exists>cells. get_col df c = Inr cells"
  using col_index_None [of "col_names df" c]
  by (auto simp: has_col_def get_col_def split: option.splits)







lemma bind_err_Inr: "bind_err m Inr = m"
  by (simp add: bind_err_def split: sum.splits)





section \<open>Fare statistics\<close>

text \<open>
  C8. A statistics record returned by \<open>_calculate_stats\<close> has the \<open>fare_stats\<close>
  entry exactly when the table has the column \<open>Total Fare (BDT)\<close>. Without
  the column the summarizer always returns, and the entry is absent rather
  than filled in; with the column holding no string it returns with the entry
  present.
\<close>

theorem fare_stats_present_iff:
  "(calculate_stats df = Inr st \<longrightarrow>
      (fare_stats st \<noteq> None) = has_col df ''Total Fare (BDT)'') \<and>
   (\<not> has_col df ''Total Fare (BDT)'' \<longrightarrow>
      (\<exists>st'. calculate_stats df = Inr st' \<and> fare_stats st' = None)) \<and>
   (has_col df ''Total Fare (BDT)'' \<and> numeric_column df ''Total Fare (BDT)'' \<longrightarrow>
      (\<exists>st' fs. calculate_stats df = Inr st' \<and> fare_stats st' = Some fs))"
proof (intro conjI impI)
  assume "calculate_stats df = Inr st"
  then show "(fare_stats st \<noteq> None) = has_col df ''Total Fare (BDT)''"
    by (auto simp: calculate_stats_def bind_err_def Let_def split: if_splits sum.splits)
next
  assume "\<not> has_col df ''Total Fare (BDT)''"
  then show "\<exists>st'. calculate_stats df = Inr st' \<and> fare_stats st' = None"
    by (simp add: calculate_stats_def Let_def)
next
  assume a: "has_col df ''Total Fare (BDT)'' \<and> numeric_column df ''Total Fare (BDT)''"
  then obtain zs where g: "get_col df ''Total Fare (BDT)'' = Inr zs"
    using has_col_get_col by blast
  have "\<exists>ys. traverse (\<lambda>c. if is_str c then Inl TypeError else Inr (num_of c)) zs = Inr ys
          \<and> (\<forall>y \<in> set ys. True)"
  proof (rule traverse_total)
    fix x assume "x \<in> set zs"
    with numeric_columnD [OF _ g] a have "\<not> is_str x" by blast
    then show "\<exists>y. (if is_str x then Inl TypeError else Inr (num_of x)) = Inr y \<and> True"
      by simp
  qed
  then obtain xs where "numeric_values zs = Inr xs"
    by (auto simp: numeric_values_def bind_err_def)
  with a g show "\<exists>st' fs. calculate_stats df = Inr st' \<and> fare_stats st' = Some fs"
    by (simp add: calculate_stats_def bind_err_def Let_def)
qed

theorem fare_stats_present_iff_witness:
  "has_col fare_example ''Total Fare (BDT)'' \<and>
   numeric_column fare_example ''Total Fare (BDT)'' \<and>
   (\<exists>st fs. calculate_stats fare_example = Inr st \<and> fare_stats st = Some fs) \<and>
   \<not> has_col duplicate_example ''Total Fare (BDT)'' \<and>
   (\<exists>st. calculate_stats duplicate_example = Inr st \<and> fare_stats st = None)"
proof -
  have h: "has_col fare_example ''Total Fare (BDT)''"
    by (simp add: has_col_def fare_example_def col_names_def)
  have n: "numeric_column fare_example ''Total Fare (BDT)''"
    by (simp add: numeric_column_def get_col_def fare_example_def col_names_def)
  have d: "\<not> has_col duplicate_example ''Total Fare (BDT)''"
    by (simp add: has_col_def duplicate_example_def col_names_def)
  obtain st where st: "calculate_stats fare_example = Inr st"
    using fare_example_stats by blast
  from fare_stats_present_iff [of fare_example st] fare_stats_present_iff [of duplicate_example st]
    h n d st
  show ?thesis by blast
qed

section \<open>The caller's table\<close>






end
